theory Spec2Isabelle
  imports Complex_Main
begin

section \<open>Data model of the FedCustom strategy\<close>

text \<open>
  The strategy class \<open>FedCustom\<close> of the tutorial notebook
  \<^verbatim>\<open>tutorial-series-build-a-strategy-from-scratch-pytorch.ipynb\<close> is embedded
  function by function. Python \<open>int\<close> is \<^typ>\<open>int\<close>. The two fractions of the
  strategy, which the code multiplies with a client count and passes to \<open>int()\<close>, are
  IEEE binary64 values (\<open>pyfloat\<close>, below) with correctly rounded operations.
  The tensor elements and the losses are only handled by helpers of the framework, and
  the learning rates of the configs are only passed on; they are real numbers
  (\<^typ>\<open>real\<close>) with exact arithmetic. An exception raised by a call is the \<open>Inl\<close>
  branch of a sum type.
\<close>

datatype scalar = SBool bool | SInt int | SFloat real | SStr string

type_synonym config = "string \<rightharpoonup> scalar"

type_synonym metrics = "string \<rightharpoonup> scalar"

text \<open>
  A NumPy array is its shape together with its elements in row-major order; an array
  produced by NumPy always holds as many elements as its shape says
  (\<open>wf_ndarray\<close>).
\<close>

record ndarray =
  shape :: "nat list"
  data :: "real list"

definition wf_ndarray :: "ndarray \<Rightarrow> bool" where
  "wf_ndarray t = (length (data t) = prod_list (shape t))"

datatype parameters = Parameters (tensors: "ndarray list")

datatype client_proxy = ClientProxy (cid: string)

datatype fit_ins = FitIns (fit_ins_parameters: parameters) (fit_ins_config: config)

datatype evaluate_ins =
  EvaluateIns (evaluate_ins_parameters: parameters) (evaluate_ins_config: config)

record fit_res =
  fit_parameters :: parameters
  fit_num_examples :: int
  fit_metrics :: metrics

record evaluate_res =
  eval_loss :: real
  eval_num_examples :: int
  eval_metrics :: metrics

text \<open>
  An entry of the \<open>failures\<close> list is either a client together with the result it sent
  or an exception (\<open>Union[Tuple[ClientProxy, FitRes], BaseException]\<close>).
\<close>

datatype 'r failure = FailedResult client_proxy 'r | FailedException string

text \<open>
  The ways an aggregation helper fails: it was given no parameter set at all, the
  parameter sets differ in tensor count or shape, or the weights add up to zero. The
  last two are the exceptions Python raises when a number does not convert:
  \<open>OverflowError\<close> and \<open>ValueError\<close>.
\<close>

datatype error = EmptyInput | ShapeMismatch | ZeroWeight | OverflowError | ValueError

section \<open>Python floats\<close>

text \<open>
  A Python \<open>float\<close> is an IEEE 754 binary64 value: a finite number \<open>m * 2 ^ e\<close> with
  an integer \<open>m\<close>, \<open>\<bar>m\<bar> < 2 ^ 53\<close>, \<open>- 1074 \<le> e \<le> 971\<close>, an infinity or NaN. Every
  operation below returns such a value. The sign of a zero is not modelled: no
  operation below tells \<open>-0.0\<close> from \<open>0.0\<close>.
\<close>

datatype pyfloat = Finite real | PosInf | NegInf | NaN

text \<open>Rounding to the nearest integer, a tie going to the even one.\<close>

definition round_half_even :: "real \<Rightarrow> int" where
  "round_half_even x =
     (let f = \<lfloor>x\<rfloor>; d = x - of_int f
      in if d < 1 / 2 then f else if 1 / 2 < d then f + 1 else if even f then f else f + 1)"

text \<open>
  The exponent of the binary64 value nearest to \<open>x\<close>: \<open>x\<close> is halved while it is at
  least \<open>2 ^ 53\<close> and doubled while it is below \<open>2 ^ 52\<close>, the exponent staying within
  \<open>- 1074 .. 971\<close>; below the smallest exponent the value is subnormal.
\<close>

function scale_down :: "real \<Rightarrow> int \<Rightarrow> real \<times> int" where
  "scale_down x e =
     (if e < 971 \<and> 9007199254740992 \<le> \<bar>x\<bar> then scale_down (x / 2) (e + 1) else (x, e))"
  by pat_completeness auto
termination
  by (relation "measure (\<lambda>(x, e). nat (971 - e))") auto

function scale_up :: "real \<Rightarrow> int \<Rightarrow> real \<times> int" where
  "scale_up x e =
     (if - 1074 < e \<and> \<bar>x\<bar> < 4503599627370496 then scale_up (2 * x) (e - 1) else (x, e))"
  by pat_completeness auto
termination
  by (relation "measure (\<lambda>(x, e). nat (e + 1074))") auto

text \<open>
  The result of an operation whose exact value is \<open>x\<close>: the nearest binary64 value, a
  tie going to the even significand, and an infinity when the rounded value reaches
  \<open>2 ^ 1024\<close>.
\<close>

definition round_binary64 :: "real \<Rightarrow> pyfloat" where
  "round_binary64 x =
     (if x = 0 then Finite 0
      else
        case scale_down x 0 of (x1, e1) \<Rightarrow>
        case scale_up x1 e1 of (m, e) \<Rightarrow>
          let y = of_int (round_half_even m) * 2 powi e
          in if 2 ^ 1024 \<le> \<bar>y\<bar> then (if 0 < x then PosInf else NegInf) else Finite y)"

text \<open>A decimal literal of the source, such as \<open>0.3\<close>, is the binary64 value nearest to it.\<close>

definition float_literal :: "real \<Rightarrow> pyfloat" where
  "float_literal x = round_binary64 x"

text \<open>
  \<open>int * float\<close> converts the integer to a float first, which raises \<open>OverflowError\<close>
  when the integer is too large, and then multiplies the two floats.
\<close>

definition int_to_float :: "int \<Rightarrow> error + pyfloat" where
  "int_to_float n =
     (case round_binary64 (of_int n) of
        Finite y \<Rightarrow> Inr (Finite y)
      | _ \<Rightarrow> Inl OverflowError)"

fun float_neg :: "pyfloat \<Rightarrow> pyfloat" where
  "float_neg (Finite x) = Finite (- x)"
| "float_neg PosInf = NegInf"
| "float_neg NegInf = PosInf"
| "float_neg NaN = NaN"

fun float_mul :: "pyfloat \<Rightarrow> pyfloat \<Rightarrow> pyfloat" where
  "float_mul NaN b = NaN"
| "float_mul a NaN = NaN"
| "float_mul (Finite x) (Finite y) = round_binary64 (x * y)"
| "float_mul (Finite x) b = (if x = 0 then NaN else if 0 < x then b else float_neg b)"
| "float_mul a (Finite y) = (if y = 0 then NaN else if 0 < y then a else float_neg a)"
| "float_mul PosInf b = b"
| "float_mul NegInf b = float_neg b"

definition int_times_float :: "int \<Rightarrow> pyfloat \<Rightarrow> error + pyfloat" where
  "int_times_float n b =
     (case int_to_float n of Inl e \<Rightarrow> Inl e | Inr a \<Rightarrow> Inr (float_mul a b))"

section \<open>The strategy\<close>

text \<open>The fields set by \<open>FedCustom.__init__\<close>.\<close>

record FedCustom =
  fraction_fit :: pyfloat
  fraction_evaluate :: pyfloat
  min_fit_clients :: int
  min_evaluate_clients :: int
  min_available_clients :: int

text \<open>The defaults of the constructor: \<open>FedCustom()\<close>.\<close>

definition FedCustom_default :: FedCustom where
  "FedCustom_default =
     \<lparr>fraction_fit = Finite 1, fraction_evaluate = Finite 1, min_fit_clients = 2,
      min_evaluate_clients = 2, min_available_clients = 2\<rparr>"

section \<open>Number of clients to sample\<close>

text \<open>
  Python's \<open>int(x)\<close> on a float discards the fractional part (rounds towards zero); it
  raises \<open>OverflowError\<close> on an infinity and \<open>ValueError\<close> on NaN.
\<close>

fun py_int :: "pyfloat \<Rightarrow> error + int" where
  "py_int (Finite x) = Inr (if 0 \<le> x then \<lfloor>x\<rfloor> else \<lceil>x\<rceil>)"
| "py_int PosInf = Inl OverflowError"
| "py_int NegInf = Inl OverflowError"
| "py_int NaN = Inl ValueError"

text \<open>
  \<^verbatim>\<open>
  def num_fit_clients(self, num_available_clients):
      num_clients = int(num_available_clients * self.fraction_fit)
      return max(num_clients, self.min_fit_clients), self.min_available_clients
  \<close>
\<close>

definition num_fit_clients :: "FedCustom \<Rightarrow> int \<Rightarrow> error + int \<times> int" where
  "num_fit_clients self num_available_clients =
     (case int_times_float num_available_clients (fraction_fit self) of
        Inl e \<Rightarrow> Inl e
      | Inr product \<Rightarrow>
          (case py_int product of
             Inl e \<Rightarrow> Inl e
           | Inr num_clients \<Rightarrow>
               Inr (max num_clients (min_fit_clients self), min_available_clients self)))"

text \<open>
  \<^verbatim>\<open>
  def num_evaluation_clients(self, num_available_clients):
      num_clients = int(num_available_clients * self.fraction_evaluate)
      return max(num_clients, self.min_evaluate_clients), self.min_available_clients
  \<close>
\<close>

definition num_evaluation_clients :: "FedCustom \<Rightarrow> int \<Rightarrow> error + int \<times> int" where
  "num_evaluation_clients self num_available_clients =
     (case int_times_float num_available_clients (fraction_evaluate self) of
        Inl e \<Rightarrow> Inl e
      | Inr product \<Rightarrow>
          (case py_int product of
             Inl e \<Rightarrow> Inl e
           | Inr num_clients \<Rightarrow>
               Inr (max num_clients (min_evaluate_clients self), min_available_clients self)))"

section \<open>Centralized evaluation\<close>

text \<open>
  \<^verbatim>\<open>
  def evaluate(self, server_round, parameters):
      return None
  \<close>
\<close>

definition evaluate ::
  "FedCustom \<Rightarrow> int \<Rightarrow> parameters \<Rightarrow> (real \<times> metrics) option" where
  "evaluate self server_round parameters = None"

section \<open>The client manager\<close>

text \<open>
  \<open>ClientManager\<close> is imported from \<open>flwr.server.client_manager\<close>, which is not part of
  the notebook. The strategy calls two of its methods, \<open>num_available()\<close> and
  \<open>sample(num_clients, min_num_clients)\<close>. Their results are parameters of the model: a
  manager is any record of a number of available clients and a sampling function.
  Every call is appended to \<open>cm_calls\<close>, so that a run of the strategy shows which
  calls it made.
\<close>

datatype manager_call = CallNumAvailable | CallSample int int

record client_manager =
  cm_num_available :: int
  cm_sample :: "int \<Rightarrow> int \<Rightarrow> client_proxy list"
  cm_calls :: "manager_call list"

definition num_available :: "client_manager \<Rightarrow> int \<times> client_manager" where
  "num_available cm =
     (cm_num_available cm, cm\<lparr>cm_calls := cm_calls cm @ [CallNumAvailable]\<rparr>)"

definition sample :: "client_manager \<Rightarrow> int \<Rightarrow> int \<Rightarrow> client_proxy list \<times> client_manager" where
  "sample cm num_clients min_num_clients =
     (cm_sample cm num_clients min_num_clients,
      cm\<lparr>cm_calls := cm_calls cm @ [CallSample num_clients min_num_clients]\<rparr>)"

text \<open>
  Modelled from the spec: the registry behind \<open>ClientManager.sample\<close> is not under src/.
  The spec's interface \<open>ClientRegistry.sample(num_clients, min_num_clients)\<close> fails if
  fewer than \<open>min_num_clients\<close> clients are available, and otherwise returns exactly
  \<open>num_clients\<close> distinct handles; by the spec's invariant the sample size requested
  from the registry is at most the number of currently available clients, else selection
  must fail explicitly. So the registry fails, with the empty sequence as its
  insufficiency signal, when fewer than \<open>min_num_clients\<close> or fewer than \<open>num_clients\<close>
  clients are available. The selection policy is left to the registry, here the first
  handles in registration order.
\<close>

definition registry :: "client_proxy list \<Rightarrow> client_manager" where
  "registry available =
     \<lparr>cm_num_available = int (length available),
      cm_sample = (\<lambda>num_clients min_num_clients.
         if int (length available) < min_num_clients \<or> int (length available) < num_clients
         then []
         else take (nat num_clients) available),
      cm_calls = []\<rparr>"

section \<open>Configuring a round\<close>

text \<open>
  \<^verbatim>\<open>
  def configure_fit(self, server_round, parameters, client_manager):
      sample_size, min_num_clients = self.num_fit_clients(
          client_manager.num_available())
      clients = client_manager.sample(
          num_clients=sample_size, min_num_clients=min_num_clients)
      n_clients = len(clients)
      half_clients = n_clients // 2
      standard_config = {"lr": 0.001}
      higher_lr_config = {"lr": 0.003}
      fit_configurations = []
      for idx, client in enumerate(clients):
          if idx < half_clients:
              fit_configurations.append((client, FitIns(parameters, standard_config)))
          else:
              fit_configurations.append((client, FitIns(parameters, higher_lr_config)))
      return fit_configurations
  \<close>
  The loop is a left fold over \<open>enumerate(clients)\<close> whose state is the list
  \<open>fit_configurations\<close>. The result is paired with the manager after the calls; an
  exception of \<open>num_fit_clients\<close> ends the call before anything is sampled.
\<close>

definition standard_config :: config where
  "standard_config = [''lr'' \<mapsto> SFloat (1 / 1000)]"

definition higher_lr_config :: config where
  "higher_lr_config = [''lr'' \<mapsto> SFloat (3 / 1000)]"

definition configure_fit ::
  "FedCustom \<Rightarrow> int \<Rightarrow> parameters \<Rightarrow> client_manager
     \<Rightarrow> (error + (client_proxy \<times> fit_ins) list) \<times> client_manager" where
  "configure_fit self server_round parameters client_manager =
     (let (available, cm1) = num_available client_manager
      in case num_fit_clients self available of
           Inl e \<Rightarrow> (Inl e, cm1)
         | Inr (sample_size, min_num_clients) \<Rightarrow>
             (let (clients, cm2) = sample cm1 sample_size min_num_clients;
                  n_clients = length clients;
                  half_clients = n_clients div 2;
                  fit_configurations =
                    foldl (\<lambda>fit_configurations (idx, client).
                             if idx < half_clients
                             then fit_configurations
                                    @ [(client, FitIns parameters standard_config)]
                             else fit_configurations
                                    @ [(client, FitIns parameters higher_lr_config)])
                          [] (enumerate 0 clients)
              in (Inr fit_configurations, cm2)))"

text \<open>
  \<^verbatim>\<open>
  def configure_evaluate(self, server_round, parameters, client_manager):
      if self.fraction_evaluate == 0.0:
          return []
      config = {}
      evaluate_ins = EvaluateIns(parameters, config)
      sample_size, min_num_clients = self.num_evaluation_clients(
          client_manager.num_available())
      clients = client_manager.sample(
          num_clients=sample_size, min_num_clients=min_num_clients)
      return [(client, evaluate_ins) for client in clients]
  \<close>
\<close>

definition configure_evaluate ::
  "FedCustom \<Rightarrow> int \<Rightarrow> parameters \<Rightarrow> client_manager
     \<Rightarrow> (error + (client_proxy \<times> evaluate_ins) list) \<times> client_manager" where
  "configure_evaluate self server_round parameters client_manager =
     (if fraction_evaluate self = Finite 0 then (Inr [], client_manager)
      else
        let config = Map.empty;
            evaluate_ins = EvaluateIns parameters config;
            (available, cm1) = num_available client_manager
        in case num_evaluation_clients self available of
             Inl e \<Rightarrow> (Inl e, cm1)
           | Inr (sample_size, min_num_clients) \<Rightarrow>
               (let (clients, cm2) = sample cm1 sample_size min_num_clients
                in (Inr (map (\<lambda>client. (client, evaluate_ins)) clients), cm2)))"

section \<open>Aggregation helpers of the framework\<close>

text \<open>
  Modelled from the spec: \<open>parameters_to_ndarrays\<close> and \<open>ndarrays_to_parameters\<close> are
  imported from \<open>flwr.common\<close>, which is not under src/. By the spec a ParameterSet is an
  opaque, serializable container for a flat ordered list of numeric tensors, so the two
  conversions unwrap and wrap that list.
\<close>

definition parameters_to_ndarrays :: "parameters \<Rightarrow> ndarray list" where
  "parameters_to_ndarrays p = tensors p"

definition ndarrays_to_parameters :: "ndarray list \<Rightarrow> parameters" where
  "ndarrays_to_parameters ws = Parameters ws"

text \<open>Elementwise operations on arrays of one shape.\<close>

definition nd_scale :: "real \<Rightarrow> ndarray \<Rightarrow> ndarray" where
  "nd_scale c t = t\<lparr>data := map (\<lambda>x. c * x) (data t)\<rparr>"

definition nd_add :: "ndarray \<Rightarrow> ndarray \<Rightarrow> ndarray" where
  "nd_add a b = a\<lparr>data := map2 (+) (data a) (data b)\<rparr>"

definition nd_div :: "ndarray \<Rightarrow> real \<Rightarrow> ndarray" where
  "nd_div t c = t\<lparr>data := map (\<lambda>x. x / c) (data t)\<rparr>"

definition same_shapes :: "ndarray list \<Rightarrow> ndarray list \<Rightarrow> bool" where
  "same_shapes ws ws' = (map shape ws = map shape ws')"

text \<open>
  Modelled from the spec: \<open>aggregate\<close> is imported from
  \<open>flwr.server.strategy.aggregate\<close>, which is not under src/. It is the spec's
  \<open>weighted_average(parameter_sets, weights)\<close>, called on the list of pairs
  (parameter set, weight): it requires at least one parameter set, fails with a
  ShapeMismatch condition if any two parameter sets differ in tensor count or in any
  tensor shape, fails with ZeroWeight rather than dividing by a zero total weight, and
  returns one parameter set whose tensor \<open>i\<close> is the sum of the weighted tensors \<open>i\<close>
  divided by the sum of the weights.
\<close>

fun aggregate :: "(ndarray list \<times> int) list \<Rightarrow> error + ndarray list" where
  "aggregate [] = Inl EmptyInput"
| "aggregate ((ws, n) # rest) =
     (let num_examples_total = n + sum_list (map snd rest)
      in if \<not> list_all (\<lambda>(ws', n'). same_shapes ws ws') rest then Inl ShapeMismatch
         else if num_examples_total = 0 then Inl ZeroWeight
         else Inr (map (\<lambda>i. nd_div
                              (foldl nd_add (nd_scale (of_int n) (ws ! i))
                                 (map (\<lambda>(ws', n'). nd_scale (of_int n') (ws' ! i)) rest))
                              (of_int num_examples_total))
                       [0..<length ws]))"

text \<open>
  Modelled from the spec: \<open>weighted_loss_avg\<close> is imported from
  \<open>flwr.server.strategy.aggregate\<close>, which is not under src/. It is the spec's
  \<open>weighted_scalar_average\<close> of pairs (weight, value): it returns the sum of
  weight times value divided by the sum of the weights, and fails if the total weight
  is zero.
\<close>

definition weighted_loss_avg :: "(int \<times> real) list \<Rightarrow> error + real" where
  "weighted_loss_avg results =
     (let num_total_evaluation_examples = sum_list (map fst results);
          weighted_losses = map (\<lambda>(num_examples, loss). of_int num_examples * loss) results
      in if num_total_evaluation_examples = 0 then Inl ZeroWeight
         else Inr (sum_list weighted_losses / of_int num_total_evaluation_examples))"

section \<open>Aggregating the results of a round\<close>

text \<open>
  \<^verbatim>\<open>
  def aggregate_fit(self, server_round, results, failures):
      weights_results = [
          (parameters_to_ndarrays(fit_res.parameters), fit_res.num_examples)
          for _, fit_res in results
      ]
      parameters_aggregated = ndarrays_to_parameters(aggregate(weights_results))
      metrics_aggregated = {}
      return parameters_aggregated, metrics_aggregated
  \<close>
  An exception raised by \<open>aggregate\<close> leaves \<open>aggregate_fit\<close> as it is.
\<close>

definition aggregate_fit ::
  "FedCustom \<Rightarrow> int \<Rightarrow> (client_proxy \<times> fit_res) list \<Rightarrow> fit_res failure list
     \<Rightarrow> error + (parameters option \<times> metrics)" where
  "aggregate_fit self server_round results failures =
     (let weights_results =
            map (\<lambda>(client, fit_res).
                   (parameters_to_ndarrays (fit_parameters fit_res), fit_num_examples fit_res))
                results
      in case aggregate weights_results of
           Inl e \<Rightarrow> Inl e
         | Inr ws \<Rightarrow>
             (let parameters_aggregated = ndarrays_to_parameters ws;
                  metrics_aggregated = Map.empty
              in Inr (Some parameters_aggregated, metrics_aggregated)))"

text \<open>
  \<^verbatim>\<open>
  def aggregate_evaluate(self, server_round, results, failures):
      if not results:
          return None, {}
      loss_aggregated = weighted_loss_avg(
          [(evaluate_res.num_examples, evaluate_res.loss) for _, evaluate_res in results])
      metrics_aggregated = {}
      return loss_aggregated, metrics_aggregated
  \<close>
\<close>

definition aggregate_evaluate ::
  "FedCustom \<Rightarrow> int \<Rightarrow> (client_proxy \<times> evaluate_res) list \<Rightarrow> evaluate_res failure list
     \<Rightarrow> error + (real option \<times> metrics)" where
  "aggregate_evaluate self server_round results failures =
     (if results = [] then Inr (None, Map.empty)
      else
        case weighted_loss_avg
               (map (\<lambda>(client, evaluate_res).
                       (eval_num_examples evaluate_res, eval_loss evaluate_res))
                    results) of
          Inl e \<Rightarrow> Inl e
        | Inr loss_aggregated \<Rightarrow>
            (let metrics_aggregated = Map.empty
             in Inr (Some loss_aggregated, metrics_aggregated)))"

section \<open>Concrete inputs\<close>

text \<open>
  The configuration the tutorial series passes to its strategies
  (\<open>fraction_fit=0.3, fraction_evaluate=0.3, min_fit_clients=3, min_evaluate_clients=3,
  min_available_clients=NUM_PARTITIONS\<close> with \<open>NUM_PARTITIONS = 10\<close>), and a registry of
  ten clients.
\<close>

definition tutorial_config :: FedCustom where
  "tutorial_config =
     \<lparr>fraction_fit = float_literal (3 / 10), fraction_evaluate = float_literal (3 / 10),
      min_fit_clients = 3, min_evaluate_clients = 3, min_available_clients = 10\<rparr>"

text \<open>
  \<open>FedCustom(fraction_fit=-0.5, min_fit_clients=-3)\<close> and
  \<open>FedCustom(fraction_fit=2.0**1023)\<close>: a negative fraction with a negative minimum, and
  a fraction whose double is too large to be multiplied by two.
\<close>

definition negative_config :: FedCustom where
  "negative_config = FedCustom_default\<lparr>fraction_fit := Finite (- 1 / 2), min_fit_clients := - 3\<rparr>"

definition huge_config :: FedCustom where
  "huge_config = FedCustom_default\<lparr>fraction_fit := Finite (2 ^ 1023)\<rparr>"

definition ten_clients :: "client_proxy list" where
  "ten_clients = map (\<lambda>c. ClientProxy [c]) ''0123456789''"

text \<open>Two clients that return one tensor of shape \<open>(2,)\<close> each, with 10 and 30 examples.\<close>

definition two_results :: "(client_proxy \<times> fit_res) list" where
  "two_results =
     [(ClientProxy ''0'',
       \<lparr>fit_parameters = Parameters [\<lparr>shape = [2], data = [2, 0]\<rparr>],
        fit_num_examples = 10, fit_metrics = Map.empty\<rparr>),
      (ClientProxy ''1'',
       \<lparr>fit_parameters = Parameters [\<lparr>shape = [2], data = [4, 8]\<rparr>],
        fit_num_examples = 30, fit_metrics = Map.empty\<rparr>)]"

text \<open>Two clients whose tensors have the shapes \<open>(2,)\<close> and \<open>(3,)\<close>.\<close>

definition mismatched_results :: "(client_proxy \<times> fit_res) list" where
  "mismatched_results =
     [(ClientProxy ''0'',
       \<lparr>fit_parameters = Parameters [\<lparr>shape = [2], data = [1, 2]\<rparr>],
        fit_num_examples = 1, fit_metrics = Map.empty\<rparr>),
      (ClientProxy ''1'',
       \<lparr>fit_parameters = Parameters [\<lparr>shape = [3], data = [1, 2, 3]\<rparr>],
        fit_num_examples = 1, fit_metrics = Map.empty\<rparr>)]"

text \<open>The evaluation results \<open>[(10, 2.0), (30, 4.0)]\<close> of the spec's example.\<close>

definition two_evaluations :: "(client_proxy \<times> evaluate_res) list" where
  "two_evaluations =
     [(ClientProxy ''0'', \<lparr>eval_loss = 2, eval_num_examples = 10, eval_metrics = Map.empty\<rparr>),
      (ClientProxy ''1'', \<lparr>eval_loss = 4, eval_num_examples = 30, eval_metrics = Map.empty\<rparr>)]"

section \<open>Auxiliary facts\<close>

lemma sum_list_nth_map: "sum_list (map f xs) = (\<Sum>i<length xs. f (xs ! i))"
  by (simp add: sum_list_sum_nth atLeast0LessThan)

subsection \<open>Floating-point products\<close>

text \<open>Evaluating the rounding at concrete numbers.\<close>

lemmas float_eval =
  round_binary64_def scale_down.simps scale_up.simps round_half_even_def float_literal_def
  int_to_float_def int_times_float_def power_int_minus

lemma literal_03: "float_literal (3 / 10) = Finite (5404319552844595 / 18014398509481984)"
  by (simp add: float_eval)

lemma times_100_03: "int_times_float 100 (float_literal (3 / 10)) = Inr (Finite 30)"
  by (simp add: float_eval)

lemma times_5_03: "int_times_float 5 (float_literal (3 / 10)) = Inr (Finite (3 / 2))"
  by (simp add: float_eval)


lemma times_10_1: "int_times_float 10 (Finite 1) = Inr (Finite 10)"
  by (simp add: float_eval)

lemma times_1_1: "int_times_float 1 (Finite 1) = Inr (Finite 1)"
  by (simp add: float_eval)

lemma times_100_029:
  "int_times_float 100 (float_literal (29 / 100))
     = Inr (Finite (8162774324609023 / 281474976710656))"
  by (simp add: float_eval)

text \<open>Rounding keeps the sign.\<close>

lemma round_half_even_sign:
  "(0 \<le> x \<longrightarrow> 0 \<le> round_half_even x) \<and> (x \<le> 0 \<longrightarrow> round_half_even x \<le> 0)"
proof -
  have "0 \<le> \<lfloor>x\<rfloor>" if "0 \<le> x" using that by simp
  moreover have "round_half_even x \<le> 0" if "x \<le> 0"
  proof (cases "x - of_int \<lfloor>x\<rfloor> < 1 / 2")
    case True
    then show ?thesis using that by (simp add: round_half_even_def Let_def floor_le_iff) 
  next
    case False
    then have "x < 0" using that by (cases "x = 0") auto
    then have "\<lfloor>x\<rfloor> + 1 \<le> 0" by linarith
    moreover have "\<lfloor>x\<rfloor> \<le> 0" using that by linarith
    ultimately show ?thesis by (simp add: round_half_even_def Let_def)
  qed
  moreover have "\<lfloor>x\<rfloor> \<le> round_half_even x"
    by (simp add: round_half_even_def Let_def)
  ultimately show ?thesis by (meson order_trans)
qed

lemma scale_down_sign:
  "scale_down x e = (m, e') \<Longrightarrow> (0 \<le> x \<longrightarrow> 0 \<le> m) \<and> (x \<le> 0 \<longrightarrow> m \<le> 0)"
proof (induction x e rule: scale_down.induct)
  case (1 x e)
  show ?case
  proof (cases "e < 971 \<and> 9007199254740992 \<le> \<bar>x\<bar>")
    case True
    then have "scale_down x e = scale_down (x / 2) (e + 1)"
      by (subst scale_down.simps) auto
    then have "scale_down (x / 2) (e + 1) = (m, e')"
      using "1.prems" by simp
    from "1.IH"[OF True this] show ?thesis by simp
  next
    case False
    then have "scale_down x e = (x, e)"
      by (subst scale_down.simps) auto
    then show ?thesis using "1.prems" by simp
  qed
qed

lemma scale_up_sign:
  "scale_up x e = (m, e') \<Longrightarrow> (0 \<le> x \<longrightarrow> 0 \<le> m) \<and> (x \<le> 0 \<longrightarrow> m \<le> 0)"
proof (induction x e rule: scale_up.induct)
  case (1 x e)
  show ?case
  proof (cases "- 1074 < e \<and> \<bar>x\<bar> < 4503599627370496")
    case True
    then have "scale_up x e = scale_up (2 * x) (e - 1)"
      by (subst scale_up.simps) auto
    then have "scale_up (2 * x) (e - 1) = (m, e')"
      using "1.prems" by simp
    from "1.IH"[OF True this] show ?thesis by simp
  next
    case False
    then have "scale_up x e = (x, e)"
      by (subst scale_up.simps) auto
    then show ?thesis using "1.prems" by simp
  qed
qed

lemma round_binary64_sign:
  assumes "round_binary64 x = Finite p"
  shows "(0 \<le> x \<longrightarrow> 0 \<le> p) \<and> (x \<le> 0 \<longrightarrow> p \<le> 0)"
proof (cases "x = 0")
  case True
  then show ?thesis using assms by (simp add: round_binary64_def)
next
  case False
  obtain x1 e1 where sd: "scale_down x 0 = (x1, e1)" by (cases "scale_down x 0")
  obtain m e where su: "scale_up x1 e1 = (m, e)" by (cases "scale_up x1 e1")
  have p: "p = of_int (round_half_even m) * 2 powi e"
    using assms False sd su by (simp add: round_binary64_def Let_def split: if_splits)
  have sign: "(0 \<le> x \<longrightarrow> 0 \<le> m) \<and> (x \<le> 0 \<longrightarrow> m \<le> 0)"
    using scale_down_sign[OF sd] scale_up_sign[OF su] by blast
  have pos: "(0::real) < 2 powi e" by simp
  show ?thesis
  proof (intro conjI impI)
    assume "0 \<le> x"
    then have "0 \<le> round_half_even m" using sign round_half_even_sign[of m] by blast
    then show "0 \<le> p" unfolding p using pos by (simp add: zero_le_mult_iff)
  next
    assume "x \<le> 0"
    then have "round_half_even m \<le> 0" using sign round_half_even_sign[of m] by blast
    then show "p \<le> 0" unfolding p using pos by (simp add: mult_le_0_iff)
  qed
qed

lemma int_times_float_sign:
  assumes "int_times_float n (Finite f) = Inr (Finite p)"
  shows "(0 \<le> n \<and> 0 \<le> f \<longrightarrow> 0 \<le> p) \<and> (0 \<le> n \<and> f \<le> 0 \<longrightarrow> p \<le> 0)"
proof -
  obtain a where a: "round_binary64 (of_int n) = Finite a" and p: "round_binary64 (a * f) = Finite p"
    using assms by (auto simp: int_times_float_def int_to_float_def split: pyfloat.splits)
  have "0 \<le> n \<longrightarrow> 0 \<le> a" using round_binary64_sign[OF a] by simp
  then show ?thesis
    using round_binary64_sign[OF p] by (auto simp: zero_le_mult_iff mult_le_0_iff)
qed



text \<open>A fraction that is NaN makes \<open>int()\<close> raise \<open>ValueError\<close>.\<close>

lemma num_fit_clients_nan:
  "int_to_float n = Inr a \<Longrightarrow> num_fit_clients (self\<lparr>fraction_fit := NaN\<rparr>) n = Inl ValueError"
  by (cases a) (simp_all add: num_fit_clients_def int_times_float_def)

text \<open>
  The rounding is visible in the client count: \<open>100 * 0.29\<close> and \<open>50 * 0.58\<close> are the
  double \<open>28.999999999999996\<close>, so 28 clients are sampled, and \<open>100 * 0.3\<close> is the
  double \<open>30.0\<close> although the double \<open>0.3\<close> is below \<open>3 / 10\<close>.
\<close>

lemma num_evaluation_clients_058:
  "num_evaluation_clients (FedCustom_default\<lparr>fraction_evaluate := float_literal (58 / 100)\<rparr>) 50
     = Inr (28, 2)"
  by (simp add: num_evaluation_clients_def FedCustom_default_def float_eval)

lemma num_fit_clients_029:
  "num_fit_clients (FedCustom_default\<lparr>fraction_fit := float_literal (29 / 100)\<rparr>) 100
     = Inr (28, 2)"
  by (simp add: num_fit_clients_def FedCustom_default_def times_100_029)

subsection \<open>The loop of \<open>configure_fit\<close>\<close>

lemma fit_loop_foldl:
  "foldl (\<lambda>acc ic. if fst ic < h then acc @ [(snd ic, FitIns p a)]
                                  else acc @ [(snd ic, FitIns p b)]) acc ics
   = acc @ map (\<lambda>ic. (snd ic, FitIns p (if fst ic < h then a else b))) ics"
  by (induction ics arbitrary: acc) auto

lemma halves_zip:
  "map (\<lambda>ic. (snd ic, FitIns p (if fst ic < h then a else b))) (enumerate 0 cs)
   = zip cs (replicate (min h (length cs)) (FitIns p a) @ replicate (length cs - h) (FitIns p b))"
  by (rule nth_equalityI) (auto simp: nth_enumerate_eq nth_append)

lemma configure_fit_eq:
  assumes "num_fit_clients self (cm_num_available cm) = Inr (sample_size, min_num_clients)"
  shows "fst (configure_fit self server_round p cm) =
     Inr (let clients = cm_sample cm sample_size min_num_clients
          in zip clients (replicate (length clients div 2) (FitIns p standard_config)
                          @ replicate (length clients - length clients div 2)
                              (FitIns p higher_lr_config)))"
  using assms
  by (simp add: configure_fit_def num_available_def sample_def Let_def split_def
      fit_loop_foldl halves_zip min_absorb1)

lemma config_neq: "standard_config \<noteq> higher_lr_config"
proof
  assume "standard_config = higher_lr_config"
  then have "standard_config ''lr'' = higher_lr_config ''lr''" by simp
  then show False by (simp add: standard_config_def higher_lr_config_def)
qed

lemma count_zip_replicate1:
  "length xs = m \<Longrightarrow>
   length (filter (\<lambda>(c, ins). Q ins) (zip xs (replicate m b))) = (if Q b then m else 0)"
proof (induction m arbitrary: xs)
  case 0
  then show ?case by simp
next
  case (Suc m)
  then obtain y ys where "xs = y # ys" and "length ys = m" by (cases xs) auto
  with Suc.IH[of ys] show ?case by simp
qed

lemma count_zip_replicate2:
  "length xs = k + m \<Longrightarrow>
   length (filter (\<lambda>(c, ins). Q ins) (zip xs (replicate k a @ replicate m b)))
     = (if Q a then k else 0) + (if Q b then m else 0)"
proof (induction k arbitrary: xs)
  case 0
  then show ?case using count_zip_replicate1[of xs m Q b] by simp
next
  case (Suc k)
  then obtain y ys where "xs = y # ys" and "length ys = k + m" by (cases xs) auto
  with Suc.IH[of ys] show ?case by simp
qed

subsection \<open>The weighted average of parameter sets\<close>

lemma nd_scale_simps [simp]:
  "shape (nd_scale c t) = shape t"
  "length (data (nd_scale c t)) = length (data t)"
  "k < length (data t) \<Longrightarrow> data (nd_scale c t) ! k = c * data t ! k"
  by (simp_all add: nd_scale_def)

lemma nd_div_simps [simp]:
  "shape (nd_div t c) = shape t"
  "length (data (nd_div t c)) = length (data t)"
  "k < length (data t) \<Longrightarrow> data (nd_div t c) ! k = data t ! k / c"
  by (simp_all add: nd_div_def)

lemma foldl_nd_add:
  assumes "\<forall>t \<in> set ts. length (data t) = length (data t0)"
  shows "shape (foldl nd_add t0 ts) = shape t0
       \<and> length (data (foldl nd_add t0 ts)) = length (data t0)
       \<and> (\<forall>k < length (data t0).
            data (foldl nd_add t0 ts) ! k = data t0 ! k + (\<Sum>t\<leftarrow>ts. data t ! k))"
  using assms
proof (induction ts arbitrary: t0)
  case Nil
  then show ?case by simp
next
  case (Cons t ts)
  have len: "length (data (nd_add t0 t)) = length (data t0)"
    using Cons.prems by (simp add: nd_add_def)
  have "\<forall>u \<in> set ts. length (data u) = length (data (nd_add t0 t))"
    using Cons.prems len by simp
  from Cons.IH[OF this] show ?case
    using Cons.prems len by (auto simp: nd_add_def)
qed

lemma same_shapes_length: "same_shapes ws ws' \<Longrightarrow> length ws' = length ws"
  unfolding same_shapes_def by (metis length_map)

lemma same_shapes_nth:
  "same_shapes ws ws' \<Longrightarrow> i < length ws \<Longrightarrow> shape (ws' ! i) = shape (ws ! i)"
  unfolding same_shapes_def by (metis length_map nth_map)

lemma aggregate_Cons:
  assumes shapes: "\<forall>(ws', n') \<in> set rest. same_shapes ws ws'"
    and wf: "list_all wf_ndarray ws" "\<forall>(ws', n') \<in> set rest. list_all wf_ndarray ws'"
    and total: "n + sum_list (map snd rest) \<noteq> 0"
  shows "\<exists>out. aggregate ((ws, n) # rest) = Inr out \<and> length out = length ws
           \<and> (\<forall>i < length ws. shape (out ! i) = shape (ws ! i)
                 \<and> length (data (out ! i)) = length (data (ws ! i))
                 \<and> (\<forall>k < length (data (ws ! i)).
                      data (out ! i) ! k =
                        (\<Sum>p\<leftarrow>(ws, n) # rest. of_int (snd p) * data (fst p ! i) ! k)
                        / of_int (\<Sum>p\<leftarrow>(ws, n) # rest. snd p)))"
proof -
  define total where "total = n + sum_list (map snd rest)"
  define t0 where "t0 = (\<lambda>i. nd_scale (of_int n) (ws ! i))"
  define ts where "ts = (\<lambda>i. map (\<lambda>(ws', n'). nd_scale (of_int n') (ws' ! i)) rest)"
  define out where
    "out = map (\<lambda>i. nd_div (foldl nd_add (t0 i) (ts i)) (of_int total)) [0..<length ws]"
  have all: "list_all (\<lambda>(ws', n'). same_shapes ws ws') rest"
    using shapes by (simp add: list_all_iff)
  have agg: "aggregate ((ws, n) # rest) = Inr out"
    using all total by (simp add: Let_def out_def total_def t0_def ts_def)
  have len: "length out = length ws"
    by (simp add: out_def)
  have tot: "(\<Sum>p\<leftarrow>(ws, n) # rest. snd p) = total"
    by (simp add: total_def)
  have per: "shape (out ! i) = shape (ws ! i)
                 \<and> length (data (out ! i)) = length (data (ws ! i))
                 \<and> (\<forall>k < length (data (ws ! i)).
                      data (out ! i) ! k =
                        (\<Sum>p\<leftarrow>(ws, n) # rest. of_int (snd p) * data (fst p ! i) ! k)
                        / of_int (\<Sum>p\<leftarrow>(ws, n) # rest. snd p))" if i: "i < length ws" for i
  proof -
    have oi: "out ! i = nd_div (foldl nd_add (t0 i) (ts i)) (of_int total)"
      using i by (simp add: out_def)
    have lens: "length (data (ws' ! i)) = length (data (ws ! i))"
      if "(ws', n') \<in> set rest" for ws' n'
    proof -
      have ss: "same_shapes ws ws'" using shapes that by auto
      then have i': "i < length ws'" using i by (simp add: same_shapes_length)
      have "wf_ndarray (ws' ! i)" using wf(2) that i' by (auto simp: list_all_length)
      moreover have "wf_ndarray (ws ! i)" using wf(1) i by (simp add: list_all_length)
      ultimately show ?thesis using same_shapes_nth[OF ss i] by (simp add: wf_ndarray_def)
    qed
    then have pre: "\<forall>t \<in> set (ts i). length (data t) = length (data (t0 i))"
      by (auto simp: ts_def t0_def)
    have l0: "length (data (t0 i)) = length (data (ws ! i))"
      by (simp add: t0_def)
    have sum: "(\<Sum>t\<leftarrow>ts i. data t ! k) = (\<Sum>p\<leftarrow>rest. of_int (snd p) * data (fst p ! i) ! k)"
      if "k < length (data (ws ! i))" for k
    proof -
      have "map (\<lambda>t. data t ! k) (ts i) = map (\<lambda>p. of_int (snd p) * data (fst p ! i) ! k) rest"
        using lens that by (auto simp: split_def ts_def)
      then show ?thesis by (rule arg_cong)
    qed
    note f = foldl_nd_add[OF pre]
    have "shape (out ! i) = shape (ws ! i)"
      using f by (simp add: oi t0_def)
    moreover have l: "length (data (out ! i)) = length (data (ws ! i))"
      using f l0 by (simp add: oi)
    moreover have "data (out ! i) ! k =
                        (\<Sum>p\<leftarrow>(ws, n) # rest. of_int (snd p) * data (fst p ! i) ! k)
                        / of_int (\<Sum>p\<leftarrow>(ws, n) # rest. snd p)"
      if k: "k < length (data (ws ! i))" for k
    proof -
      have "data (out ! i) ! k = data (foldl nd_add (t0 i) (ts i)) ! k / of_int total"
        using f l0 k by (simp add: oi)
      also have "data (foldl nd_add (t0 i) (ts i)) ! k
                   = data (t0 i) ! k + (\<Sum>t\<leftarrow>ts i. data t ! k)"
        using f l0 k by simp
      also have "data (t0 i) ! k = of_int n * data (ws ! i) ! k"
        using k by (simp add: t0_def)
      finally show ?thesis
        unfolding tot using sum[OF k] by simp
    qed
    ultimately show ?thesis by blast
  qed
  show ?thesis
    using agg len per by blast
qed


section \<open>The claims\<close>

text \<open>
  Claim C1. The claim: for every round number and every failures list, \<open>aggregate_fit\<close>
  called with an empty results sequence returns no parameters together with an empty
  metrics mapping, and does not fail. The code of \<open>aggregate_fit\<close> has no branch for
  empty results, unlike \<open>aggregate_evaluate\<close>: it hands the empty list to \<open>aggregate\<close>,
  whose contract requires at least one parameter set, and whatever \<open>aggregate\<close> returns
  is wrapped by \<open>ndarrays_to_parameters\<close>. So on empty results the call fails, and on no
  results at all does \<open>aggregate_fit\<close> return "no parameters".
\<close>

theorem C1_aggregate_fit_empty_results:
  "aggregate_fit self server_round [] failures = Inl EmptyInput
   \<and> aggregate_fit self server_round results failures \<noteq> Inr (None, metrics_aggregated)"
  by (simp add: aggregate_fit_def split: sum.splits)

text \<open>
  Claim C2. For every non-empty results sequence whose parameter sets all have the
  tensor count and the per-position shapes of the first one, and whose sample counts are
  positive, \<open>aggregate_fit\<close> returns a parameter set with the same tensor count and
  shapes, whose tensor \<open>i\<close> holds at every element position \<open>k\<close> the sum over the
  results \<open>j\<close> of \<open>num_examples j\<close> times element \<open>k\<close> of tensor \<open>i\<close> of result \<open>j\<close>,
  divided by the sum of all \<open>num_examples\<close>. The metrics are empty.
\<close>

theorem C2_aggregate_fit_weighted_mean:
  assumes nonempty: "results \<noteq> []"
    and shapes: "\<forall>(client, fit_res) \<in> set results.
        same_shapes (tensors (fit_parameters (snd (hd results)))) (tensors (fit_parameters fit_res))"
    and wf: "\<forall>(client, fit_res) \<in> set results.
        list_all wf_ndarray (tensors (fit_parameters fit_res))"
    and pos: "\<forall>(client, fit_res) \<in> set results. 0 < fit_num_examples fit_res"
  shows "\<exists>ws. aggregate_fit self server_round results failures
                 = Inr (Some (Parameters ws), Map.empty)
           \<and> length ws = length (tensors (fit_parameters (snd (hd results))))
           \<and> (\<forall>i < length ws.
                 shape (ws ! i) = shape (tensors (fit_parameters (snd (hd results))) ! i)
               \<and> wf_ndarray (ws ! i)
               \<and> (\<forall>k < length (data (ws ! i)).
                     data (ws ! i) ! k =
                       (\<Sum>j<length results.
                           of_int (fit_num_examples (snd (results ! j)))
                           * data (tensors (fit_parameters (snd (results ! j))) ! i) ! k)
                       / of_int (\<Sum>j<length results. fit_num_examples (snd (results ! j)))))"
proof -
  define g where
    "g = (\<lambda>(client :: client_proxy, fit_res :: fit_res).
            (parameters_to_ndarrays (fit_parameters fit_res), fit_num_examples fit_res))"
  obtain c0 r0 rest where res: "results = (c0, r0) # rest"
    using nonempty by (cases results) auto
  define ws0 where "ws0 = tensors (fit_parameters r0)"
  have hd: "tensors (fit_parameters (snd (hd results))) = ws0"
    by (simp add: res ws0_def)
  have wr: "map g results = (ws0, fit_num_examples r0) # map g rest"
    by (simp add: res g_def ws0_def parameters_to_ndarrays_def)
  have a1: "\<forall>(ws', n') \<in> set (map g rest). same_shapes ws0 ws'"
    using shapes by (auto simp: res g_def ws0_def parameters_to_ndarrays_def)
  have a2: "list_all wf_ndarray ws0"
    using wf by (simp add: res ws0_def)
  have a3: "\<forall>(ws', n') \<in> set (map g rest). list_all wf_ndarray ws'"
    using wf by (auto simp: res g_def parameters_to_ndarrays_def)
  have "0 \<le> sum_list (map snd (map g rest))"
    using pos by (intro sum_list_nonneg) (auto simp: res g_def)
  moreover have "0 < fit_num_examples r0"
    using pos by (simp add: res)
  ultimately have a4: "fit_num_examples r0 + sum_list (map snd (map g rest)) \<noteq> 0"
    by linarith
  from aggregate_Cons[OF a1 a2 a3 a4] obtain out where
    agg: "aggregate (map g results) = Inr out" and len: "length out = length ws0"
    and per: "\<And>i. i < length ws0 \<Longrightarrow> shape (out ! i) = shape (ws0 ! i)
                 \<and> length (data (out ! i)) = length (data (ws0 ! i))
                 \<and> (\<forall>k < length (data (ws0 ! i)).
                      data (out ! i) ! k =
                        (\<Sum>p\<leftarrow>map g results. of_int (snd p) * data (fst p ! i) ! k)
                        / of_int (\<Sum>p\<leftarrow>map g results. snd p))"
    unfolding wr by blast
  have s1: "(\<Sum>p\<leftarrow>map g results. of_int (snd p) * data (fst p ! i) ! k) =
            (\<Sum>j<length results.
                 of_int (fit_num_examples (snd (results ! j)))
                 * data (tensors (fit_parameters (snd (results ! j))) ! i) ! k)" for i k
    by (simp add: sum_list_nth_map g_def split_def parameters_to_ndarrays_def)
  have s2: "(\<Sum>p\<leftarrow>map g results. snd p) =
            (\<Sum>j<length results. fit_num_examples (snd (results ! j)))"
    by (simp add: sum_list_nth_map g_def split_def)
  have fit: "aggregate_fit self server_round results failures = Inr (Some (Parameters out), Map.empty)"
    using agg by (simp add: aggregate_fit_def g_def ndarrays_to_parameters_def)
  have "shape (out ! i) = shape (ws0 ! i) \<and> wf_ndarray (out ! i)
        \<and> (\<forall>k < length (data (out ! i)).
               data (out ! i) ! k =
                 (\<Sum>j<length results.
                     of_int (fit_num_examples (snd (results ! j)))
                     * data (tensors (fit_parameters (snd (results ! j))) ! i) ! k)
                 / of_int (\<Sum>j<length results. fit_num_examples (snd (results ! j))))"
    if i: "i < length out" for i
  proof -
    have i0: "i < length ws0" using i len by simp
    have "wf_ndarray (ws0 ! i)" using a2 i0 by (simp add: list_all_length)
    then have "wf_ndarray (out ! i)"
      using per[OF i0] by (simp add: wf_ndarray_def)
    then show ?thesis
      using per[OF i0] unfolding s1 s2 by simp
  qed
  then show ?thesis
    using fit len unfolding hd by blast
qed

text \<open>
  The theorem at the two results \<open>two_results\<close>: both hypotheses hold there, and the
  aggregate is the tensor \<open>[(10 * 2 + 30 * 4) / 40, (10 * 0 + 30 * 8) / 40]\<close>.
\<close>

theorem C2_aggregate_fit_weighted_mean_witness:
  "two_results \<noteq> []
   \<and> list_all (\<lambda>(client, fit_res).
        same_shapes (tensors (fit_parameters (snd (hd two_results))))
                    (tensors (fit_parameters fit_res))
        \<and> list_all wf_ndarray (tensors (fit_parameters fit_res))
        \<and> 0 < fit_num_examples fit_res) two_results
   \<and> (\<exists>ws. aggregate_fit FedCustom_default 1 two_results []
                 = Inr (Some (Parameters ws), Map.empty)
           \<and> length ws = length (tensors (fit_parameters (snd (hd two_results))))
           \<and> (\<forall>i < length ws.
                 shape (ws ! i) = shape (tensors (fit_parameters (snd (hd two_results))) ! i)
               \<and> wf_ndarray (ws ! i)
               \<and> (\<forall>k < length (data (ws ! i)).
                     data (ws ! i) ! k =
                       (\<Sum>j<length two_results.
                           of_int (fit_num_examples (snd (two_results ! j)))
                           * data (tensors (fit_parameters (snd (two_results ! j))) ! i) ! k)
                       / of_int (\<Sum>j<length two_results.
                                    fit_num_examples (snd (two_results ! j))))))
   \<and> aggregate_fit FedCustom_default 1 two_results []
       = Inr (Some (Parameters [\<lparr>shape = [2], data = [7 / 2, 6]\<rparr>]), Map.empty)"
proof -
  have h1: "two_results \<noteq> []"
    by (simp add: two_results_def)
  have h2: "\<forall>(client, fit_res) \<in> set two_results.
        same_shapes (tensors (fit_parameters (snd (hd two_results))))
                    (tensors (fit_parameters fit_res))"
    by (simp add: two_results_def same_shapes_def)
  have h3: "\<forall>(client, fit_res) \<in> set two_results.
        list_all wf_ndarray (tensors (fit_parameters fit_res))"
    by (simp add: two_results_def wf_ndarray_def)
  have h4: "\<forall>(client, fit_res) \<in> set two_results. 0 < fit_num_examples fit_res"
    by (simp add: two_results_def)
  have computed: "aggregate_fit FedCustom_default 1 two_results []
       = Inr (Some (Parameters [\<lparr>shape = [2], data = [7 / 2, 6]\<rparr>]), Map.empty)"
    by (simp add: two_results_def aggregate_fit_def parameters_to_ndarrays_def
        ndarrays_to_parameters_def same_shapes_def nd_scale_def nd_add_def nd_div_def)
  have h5: "list_all (\<lambda>(client, fit_res).
        same_shapes (tensors (fit_parameters (snd (hd two_results))))
                    (tensors (fit_parameters fit_res))
        \<and> list_all wf_ndarray (tensors (fit_parameters fit_res))
        \<and> 0 < fit_num_examples fit_res) two_results"
    using h2 h3 h4 by (auto simp: list_all_iff)
  from C2_aggregate_fit_weighted_mean[OF h1 h2 h3 h4, of FedCustom_default 1 "[]"]
    h1 h5 computed
  show ?thesis by blast
qed

text \<open>
  Claim C3. The claim: for every non-negative number of available clients,
  \<open>num_fit_clients\<close> returns the sample size
  \<open>max(floor(num_available * fraction_fit), min_fit_clients)\<close> paired with
  \<open>min_available_clients\<close>. \<open>int()\<close> discards the fractional part, which is not the floor
  of a negative product: with three available clients, \<open>fraction_fit = -0.5\<close> and
  \<open>min_fit_clients = -3\<close> the product is \<open>-1.5\<close>, the code returns the sample size
  \<open>-1\<close> and the claim's formula gives \<open>-2\<close>. And the code returns nothing when the
  product is not a finite number: with two available clients and
  \<open>fraction_fit = 2.0**1023\<close> the product is infinite and \<open>int()\<close> raises
  \<open>OverflowError\<close>.
\<close>

theorem C3_negative_fraction_counterexample:
  "int_times_float 3 (fraction_fit negative_config) = Inr (Finite (- 3 / 2))
   \<and> num_fit_clients negative_config 3 = Inr (- 1, 2)
   \<and> max \<lfloor>- 3 / 2 :: real\<rfloor> (min_fit_clients negative_config) = - 2
   \<and> num_fit_clients huge_config 2 = Inl OverflowError"
proof -
  have "int_times_float 3 (fraction_fit negative_config) = Inr (Finite (- 3 / 2))"
    by (simp add: negative_config_def FedCustom_default_def float_eval)
  moreover from this have "num_fit_clients negative_config 3 = Inr (- 1, 2)"
    by (simp add: num_fit_clients_def negative_config_def FedCustom_default_def ceiling_def)
  moreover have "max \<lfloor>- 3 / 2 :: real\<rfloor> (min_fit_clients negative_config) = - 2"
    by (simp add: negative_config_def)
  moreover have "num_fit_clients huge_config 2 = Inl OverflowError"
    by (simp add: huge_config_def FedCustom_default_def num_fit_clients_def float_eval)
  ultimately show ?thesis by blast
qed

text \<open>
  Claim C3, as amended. For every non-negative number \<open>n\<close> of available clients and
  every finite \<open>fraction_fit\<close> such that \<open>fraction_fit\<close> or \<open>min_fit_clients\<close> is
  non-negative, if the floating-point product \<open>n * fraction_fit\<close> is a finite number
  \<open>p\<close>, then \<open>num_fit_clients\<close> returns the sample size
  \<open>max(floor(p), min_fit_clients)\<close> paired with \<open>min_available_clients\<close>. With 100
  available clients, fraction 0.3 and minimum 3 the sample size is 30; with 5 available
  clients it is 3, whatever the other fields of the strategy are.
\<close>

theorem C3_num_fit_clients:
  assumes "0 \<le> n"
    and "fraction_fit self = Finite f"
    and "0 \<le> f \<or> 0 \<le> min_fit_clients self"
    and "int_times_float n (Finite f) = Inr (Finite p)"
  shows "num_fit_clients self n =
           Inr (max \<lfloor>p\<rfloor> (min_fit_clients self), min_available_clients self)
         \<and> num_fit_clients (self\<lparr>fraction_fit := float_literal (3 / 10), min_fit_clients := 3\<rparr>) 100
             = Inr (30, min_available_clients self)
         \<and> num_fit_clients (self\<lparr>fraction_fit := float_literal (3 / 10), min_fit_clients := 3\<rparr>) 5
             = Inr (3, min_available_clients self)"
proof -
  have general: "num_fit_clients self n =
           Inr (max \<lfloor>p\<rfloor> (min_fit_clients self), min_available_clients self)"
  proof (cases "0 \<le> p")
    case True
    then show ?thesis using assms(2,4) by (simp add: num_fit_clients_def)
  next
    case False
    then have neg: "p < 0" by simp
    then have "\<not> 0 \<le> f"
      using int_times_float_sign[OF assms(4)] assms(1) by auto
    then have m: "0 \<le> min_fit_clients self" using assms(3) by simp
    have "\<lfloor>p\<rfloor> \<le> 0" using neg by linarith
    moreover have "\<lceil>p\<rceil> \<le> 0" using neg by linarith
    ultimately have "\<lceil>p\<rceil> \<le> min_fit_clients self" and "\<lfloor>p\<rfloor> \<le> min_fit_clients self"
      using m by linarith+
    then have "max \<lceil>p\<rceil> (min_fit_clients self) = min_fit_clients self"
      and "max \<lfloor>p\<rfloor> (min_fit_clients self) = min_fit_clients self"
      by (simp_all only: max_absorb2)
    then show ?thesis using neg assms(2,4) by (simp add: num_fit_clients_def)
  qed
  have "num_fit_clients (self\<lparr>fraction_fit := float_literal (3 / 10), min_fit_clients := 3\<rparr>) 100
          = Inr (30, min_available_clients self)"
    by (simp add: num_fit_clients_def times_100_03)
  moreover
  have "num_fit_clients (self\<lparr>fraction_fit := float_literal (3 / 10), min_fit_clients := 3\<rparr>) 5
          = Inr (3, min_available_clients self)"
    by (simp add: num_fit_clients_def times_5_03)
  ultimately show ?thesis using general by simp
qed

text \<open>
  The theorem at the tutorial's configuration with 100 available clients: the double
  \<open>0.3\<close> is \<open>5404319552844595 / 2 ^ 54\<close>, and its product with 100 rounds to \<open>30.0\<close>.
\<close>

theorem C3_num_fit_clients_witness:
  "(0::int) \<le> 100
   \<and> fraction_fit tutorial_config = Finite (5404319552844595 / 18014398509481984)
   \<and> ((0::real) \<le> 5404319552844595 / 18014398509481984 \<or> 0 \<le> min_fit_clients tutorial_config)
   \<and> int_times_float 100 (Finite (5404319552844595 / 18014398509481984)) = Inr (Finite 30)
   \<and> num_fit_clients tutorial_config 100 = Inr (30, 10)"
proof -
  have h1: "(0::int) \<le> 100" by simp
  have h2: "fraction_fit tutorial_config = Finite (5404319552844595 / 18014398509481984)"
    by (simp add: tutorial_config_def literal_03)
  have h3: "(0::real) \<le> 5404319552844595 / 18014398509481984
              \<or> 0 \<le> min_fit_clients tutorial_config"
    by simp
  have h4: "int_times_float 100 (Finite (5404319552844595 / 18014398509481984))
              = Inr (Finite 30)"
    using times_100_03 by (simp only: literal_03)
  from C3_num_fit_clients[OF h1 h2 h3 h4] h1 h2 h3 h4
  show ?thesis by (simp add: tutorial_config_def)
qed

text \<open>
  Claim C4. Let \<open>clients\<close> be the sequence the manager's \<open>sample\<close> returns for the
  sample size and minimum computed by \<open>num_fit_clients\<close>, and \<open>n\<close> its length. Then
  \<open>configure_fit\<close> returns the clients in sample order, the first \<open>n div 2\<close> of them with
  the config \<open>{"lr": 0.001}\<close> and the remaining ones with \<open>{"lr": 0.003}\<close>, every
  instruction carrying the input parameters; with 10 sampled clients exactly 5
  instructions carry each config.
\<close>

theorem C4_configure_fit_halves:
  assumes "num_fit_clients self (cm_num_available client_manager)
             = Inr (sample_size, min_num_clients)"
    and "cm_sample client_manager sample_size min_num_clients = clients"
    and "n = length clients"
  shows "\<exists>fit_configurations.
           fst (configure_fit self server_round parameters client_manager)
             = Inr fit_configurations
         \<and> fit_configurations =
             zip clients (replicate (n div 2) (FitIns parameters standard_config)
                          @ replicate (n - n div 2) (FitIns parameters higher_lr_config))
         \<and> standard_config ''lr'' = Some (SFloat (1 / 1000))
         \<and> higher_lr_config ''lr'' = Some (SFloat (3 / 1000))
         \<and> (n = 10 \<longrightarrow>
              length (filter (\<lambda>(client, ins). fit_ins_config ins = standard_config)
                        fit_configurations) = 5
            \<and> length (filter (\<lambda>(client, ins). fit_ins_config ins = higher_lr_config)
                        fit_configurations) = 5)"
proof -
  define fit_configurations where
    "fit_configurations =
       zip clients (replicate (n div 2) (FitIns parameters standard_config)
                    @ replicate (n - n div 2) (FitIns parameters higher_lr_config))"
  have eq: "fst (configure_fit self server_round parameters client_manager)
              = Inr fit_configurations"
    using configure_fit_eq[OF assms(1)] assms(2,3) by (simp add: fit_configurations_def)
  have len: "length clients = n div 2 + (n - n div 2)" using assms(3) by simp
  have cnt: "length (filter (\<lambda>(client, ins). fit_ins_config ins = c) fit_configurations)
             = (if c = standard_config then n div 2 else 0)
               + (if c = higher_lr_config then n - n div 2 else 0)" for c
    unfolding fit_configurations_def
    using count_zip_replicate2[OF len, of "\<lambda>ins. fit_ins_config ins = c"
        "FitIns parameters standard_config" "FitIns parameters higher_lr_config"]
    by (simp add: eq_commute)
  have "standard_config ''lr'' = Some (SFloat (1 / 1000))"
    and "higher_lr_config ''lr'' = Some (SFloat (3 / 1000))"
    by (simp_all add: standard_config_def higher_lr_config_def)
  moreover have "n = 10 \<longrightarrow>
              length (filter (\<lambda>(client, ins). fit_ins_config ins = standard_config)
                        fit_configurations) = 5
            \<and> length (filter (\<lambda>(client, ins). fit_ins_config ins = higher_lr_config)
                        fit_configurations) = 5"
    using config_neq by (simp add: cnt)
  ultimately show ?thesis using eq fit_configurations_def by blast
qed

text \<open>
  The theorem at the default strategy and a registry of ten clients: all ten are
  sampled, the first five get the standard config and the last five the higher one.
\<close>

theorem C4_configure_fit_halves_witness:
  "num_fit_clients FedCustom_default (cm_num_available (registry ten_clients)) = Inr (10, 2)
   \<and> cm_sample (registry ten_clients) 10 2 = ten_clients
   \<and> (10::nat) = length ten_clients
   \<and> fst (configure_fit FedCustom_default 1 (Parameters []) (registry ten_clients)) =
        Inr (zip ten_clients (replicate 5 (FitIns (Parameters []) standard_config)
                              @ replicate 5 (FitIns (Parameters []) higher_lr_config)))
   \<and> length (filter (\<lambda>(client, ins). fit_ins_config ins = standard_config)
         (zip ten_clients (replicate 5 (FitIns (Parameters []) standard_config)
                           @ replicate 5 (FitIns (Parameters []) higher_lr_config)))) = 5
   \<and> length (filter (\<lambda>(client, ins). fit_ins_config ins = higher_lr_config)
         (zip ten_clients (replicate 5 (FitIns (Parameters []) standard_config)
                           @ replicate 5 (FitIns (Parameters []) higher_lr_config)))) = 5"
proof -
  have h1: "num_fit_clients FedCustom_default (cm_num_available (registry ten_clients))
              = Inr (10, 2)"
    by (simp add: num_fit_clients_def FedCustom_default_def registry_def ten_clients_def
        times_10_1)
  have h2: "cm_sample (registry ten_clients) 10 2 = ten_clients"
    by (simp add: registry_def ten_clients_def)
  have h3: "(10::nat) = length ten_clients"
    by (simp add: ten_clients_def)
  from C4_configure_fit_halves[OF h1 h2 h3, of 1 "Parameters []"] h1 h2 h3
  show ?thesis by auto
qed




text \<open>
  Claim C6. The claim: for every non-empty results sequence and any two failures
  sequences, \<open>aggregate_fit\<close> succeeds and returns the same parameters and metrics for
  both. It does not succeed on every non-empty results sequence: two results whose
  tensors have the shapes \<open>(2,)\<close> and \<open>(3,)\<close> make the weighted average fail with
  ShapeMismatch, with no failure reported at all.
\<close>

theorem C6_shape_mismatch_counterexample:
  "mismatched_results \<noteq> []
   \<and> aggregate_fit FedCustom_default 1 mismatched_results [] = Inl ShapeMismatch"
  by (simp add: mismatched_results_def aggregate_fit_def parameters_to_ndarrays_def
      same_shapes_def)

text \<open>
  Claim C6, as amended. For every results sequence and any two failures sequences the
  outcome of \<open>aggregate_fit\<close> is the same, whether it is a result or an error: the
  failures never enter the computation. And for every non-empty results sequence whose
  parameter sets all have the tensor count and shapes of the first one and whose sample
  counts are positive, \<open>aggregate_fit\<close> succeeds, with some parameters and empty
  metrics, whatever the failures are.
\<close>

theorem C6_aggregate_fit_failures_irrelevant:
  "aggregate_fit self server_round results failures1
     = aggregate_fit self server_round results failures2
   \<and> (results \<noteq> []
       \<and> (\<forall>(client, fit_res) \<in> set results.
             same_shapes (tensors (fit_parameters (snd (hd results))))
                         (tensors (fit_parameters fit_res))
             \<and> 0 < fit_num_examples fit_res)
       \<longrightarrow> (\<exists>parameters_aggregated.
              aggregate_fit self server_round results failures1
                = Inr (Some parameters_aggregated, Map.empty)))"
proof -
  have "\<exists>p. aggregate_fit self server_round results failures1 = Inr (Some p, Map.empty)"
    if nonempty: "results \<noteq> []"
      and ok: "\<forall>(client, fit_res) \<in> set results.
             same_shapes (tensors (fit_parameters (snd (hd results))))
                         (tensors (fit_parameters fit_res))
             \<and> 0 < fit_num_examples fit_res"
  proof -
    obtain c0 r0 rest where res: "results = (c0, r0) # rest"
      using nonempty by (cases results) auto
    have "0 \<le> sum_list (map (\<lambda>(client, fit_res). fit_num_examples fit_res) rest)"
      using ok by (intro sum_list_nonneg) (auto simp: res)
    moreover have "0 < fit_num_examples r0"
      using ok by (simp add: res)
    ultimately have "fit_num_examples r0
        + sum_list (map (\<lambda>(client, fit_res). fit_num_examples fit_res) rest) \<noteq> 0"
      by linarith
    moreover have "list_all (\<lambda>(client, fit_res).
        same_shapes (tensors (fit_parameters r0)) (tensors (fit_parameters fit_res))) rest"
      using ok by (auto simp: res list_all_iff)
    ultimately show ?thesis
      by (simp add: aggregate_fit_def res parameters_to_ndarrays_def Let_def comp_def
          split_def list_all_iff)
  qed
  then show ?thesis
    by (simp add: aggregate_fit_def)
qed

text \<open>
  The theorem at \<open>two_results\<close>, once with no failure and once with a client that timed
  out and a client whose result was rejected.
\<close>

theorem C6_aggregate_fit_failures_irrelevant_witness:
  "two_results \<noteq> []
   \<and> list_all (\<lambda>(client, fit_res).
         same_shapes (tensors (fit_parameters (snd (hd two_results))))
                     (tensors (fit_parameters fit_res))
         \<and> 0 < fit_num_examples fit_res) two_results
   \<and> aggregate_fit FedCustom_default 1 two_results []
       = aggregate_fit FedCustom_default 1 two_results
           [FailedException ''timeout'', FailedResult (ClientProxy ''2'') (snd (hd two_results))]
   \<and> (\<exists>parameters_aggregated.
         aggregate_fit FedCustom_default 1 two_results []
           = Inr (Some parameters_aggregated, Map.empty))"
proof -
  have h1: "two_results \<noteq> []"
    by (simp add: two_results_def)
  have h2: "\<forall>(client, fit_res) \<in> set two_results.
         same_shapes (tensors (fit_parameters (snd (hd two_results))))
                     (tensors (fit_parameters fit_res))
         \<and> 0 < fit_num_examples fit_res"
    by (simp add: two_results_def same_shapes_def)
  then have h3: "list_all (\<lambda>(client, fit_res).
         same_shapes (tensors (fit_parameters (snd (hd two_results))))
                     (tensors (fit_parameters fit_res))
         \<and> 0 < fit_num_examples fit_res) two_results"
    by (simp add: list_all_iff)
  from C6_aggregate_fit_failures_irrelevant[of FedCustom_default 1 two_results "[]"
      "[FailedException ''timeout'', FailedResult (ClientProxy ''2'') (snd (hd two_results))]"]
    h1 h2 h3
  show ?thesis by blast
qed

text \<open>
  Claim C7. For every round number and failures list, \<open>aggregate_evaluate\<close> returns no
  loss and empty metrics when the results sequence is empty; otherwise, the total of
  the sample counts not being zero, it returns the sum of \<open>count i * loss i\<close> divided by
  the sum of \<open>count i\<close>, with empty metrics. The weighted average of
  \<open>[(10, 2.0), (30, 4.0)]\<close> is 3.5.
\<close>

theorem C7_aggregate_evaluate:
  "aggregate_evaluate self server_round [] failures = Inr (None, Map.empty)
   \<and> (results \<noteq> [] \<and> (\<Sum>i<length results. eval_num_examples (snd (results ! i))) \<noteq> 0 \<longrightarrow>
        aggregate_evaluate self server_round results failures =
          Inr (Some ((\<Sum>i<length results. of_int (eval_num_examples (snd (results ! i)))
                                              * eval_loss (snd (results ! i)))
                     / of_int (\<Sum>i<length results. eval_num_examples (snd (results ! i)))),
               Map.empty))
   \<and> weighted_loss_avg [(10, 2), (30, 4)] = Inr 3.5
   \<and> aggregate_evaluate self server_round
        [(c1, \<lparr>eval_loss = 2, eval_num_examples = 10, eval_metrics = m1\<rparr>),
         (c2, \<lparr>eval_loss = 4, eval_num_examples = 30, eval_metrics = m2\<rparr>)] failures
      = Inr (Some 3.5, Map.empty)"
proof -
  have "aggregate_evaluate self server_round results failures =
          Inr (Some ((\<Sum>i<length results. of_int (eval_num_examples (snd (results ! i)))
                                              * eval_loss (snd (results ! i)))
                     / of_int (\<Sum>i<length results. eval_num_examples (snd (results ! i)))),
               Map.empty)"
    if "results \<noteq> []" and "(\<Sum>i<length results. eval_num_examples (snd (results ! i))) \<noteq> 0"
    using that
    by (simp add: aggregate_evaluate_def weighted_loss_avg_def sum_list_nth_map
        comp_def split_def)
  moreover have "weighted_loss_avg [(10, 2), (30, 4)] = Inr 3.5"
    by (simp add: weighted_loss_avg_def)
  moreover have "aggregate_evaluate self server_round
        [(c1, \<lparr>eval_loss = 2, eval_num_examples = 10, eval_metrics = m1\<rparr>),
         (c2, \<lparr>eval_loss = 4, eval_num_examples = 30, eval_metrics = m2\<rparr>)] failures
      = Inr (Some 3.5, Map.empty)"
    by (simp add: aggregate_evaluate_def weighted_loss_avg_def)
  ultimately show ?thesis by (simp add: aggregate_evaluate_def)
qed

text \<open>The theorem at the two evaluation results of the example.\<close>

theorem C7_aggregate_evaluate_witness:
  "two_evaluations \<noteq> []
   \<and> (\<Sum>i<length two_evaluations. eval_num_examples (snd (two_evaluations ! i))) \<noteq> 0
   \<and> aggregate_evaluate FedCustom_default 1 two_evaluations [] =
          Inr (Some ((\<Sum>i<length two_evaluations.
                         of_int (eval_num_examples (snd (two_evaluations ! i)))
                         * eval_loss (snd (two_evaluations ! i)))
                     / of_int (\<Sum>i<length two_evaluations.
                                  eval_num_examples (snd (two_evaluations ! i)))),
               Map.empty)"
proof -
  have h1: "two_evaluations \<noteq> []"
    by (simp add: two_evaluations_def)
  have h2: "(\<Sum>i<length two_evaluations. eval_num_examples (snd (two_evaluations ! i))) \<noteq> 0"
    by (simp add: two_evaluations_def lessThan_Suc numeral_2_eq_2)
  from C7_aggregate_evaluate[of FedCustom_default 1 "[]" two_evaluations] h1 h2
  show ?thesis by blast
qed

text \<open>
  Claim C8. For every round number, parameters and client manager, if
  \<open>fraction_evaluate\<close> is \<open>0.0\<close> then \<open>configure_evaluate\<close> returns the empty
  instruction sequence and leaves the manager as it was: no call of \<open>num_available\<close>
  or \<open>sample\<close> has been recorded.
\<close>

theorem C8_configure_evaluate_zero_fraction:
  "fraction_evaluate self = Finite 0 \<Longrightarrow>
     configure_evaluate self server_round parameters client_manager = (Inr [], client_manager)"
  by (simp add: configure_evaluate_def)

text \<open>The theorem at a strategy with \<open>fraction_evaluate = 0.0\<close> and ten registered clients.\<close>

theorem C8_configure_evaluate_zero_fraction_witness:
  "fraction_evaluate (FedCustom_default\<lparr>fraction_evaluate := Finite 0\<rparr>) = Finite 0
   \<and> configure_evaluate (FedCustom_default\<lparr>fraction_evaluate := Finite 0\<rparr>) 1 (Parameters [])
        (registry ten_clients)
      = (Inr [], registry ten_clients)
   \<and> cm_calls (snd (configure_evaluate (FedCustom_default\<lparr>fraction_evaluate := Finite 0\<rparr>) 1
        (Parameters []) (registry ten_clients))) = []"
  using C8_configure_evaluate_zero_fraction
    [of "FedCustom_default\<lparr>fraction_evaluate := Finite 0\<rparr>" 1 "Parameters []"
        "registry ten_clients"]
  by (simp add: registry_def)

text \<open>
  Claim C9. For every round number and parameters, when the manager's \<open>sample\<close>, called
  with the sample size and the minimum that \<open>num_fit_clients\<close> computes, signals
  insufficiency by returning the empty client sequence, \<open>configure_fit\<close> returns the
  empty instruction list.
\<close>

theorem C9_configure_fit_insufficient:
  assumes "num_fit_clients self (cm_num_available client_manager)
             = Inr (sample_size, min_num_clients)"
    and "cm_sample client_manager sample_size min_num_clients = []"
  shows "fst (configure_fit self server_round parameters client_manager) = Inr []"
  using assms by (simp add: configure_fit_def num_available_def sample_def)

text \<open>
  The theorem at the default strategy and a registry with one client, fewer than the
  two that \<open>min_available_clients\<close> requires.
\<close>

theorem C9_configure_fit_insufficient_witness:
  "num_fit_clients FedCustom_default (cm_num_available (registry [ClientProxy ''0'']))
     = Inr (2, 2)
   \<and> cm_sample (registry [ClientProxy ''0'']) 2 2 = []
   \<and> fst (configure_fit FedCustom_default 1 (Parameters []) (registry [ClientProxy ''0'']))
       = Inr []"
proof -
  have h1: "num_fit_clients FedCustom_default (cm_num_available (registry [ClientProxy ''0'']))
              = Inr (2, 2)"
    by (simp add: num_fit_clients_def FedCustom_default_def registry_def times_1_1)
  have h2: "cm_sample (registry [ClientProxy ''0'']) 2 2 = []"
    by (simp add: registry_def)
  from C9_configure_fit_insufficient[OF h1 h2, of 1 "Parameters []"] h1 h2
  show ?thesis by simp
qed

text \<open>
  Claim C10. For every round number and every parameters value, the centralized
  evaluation hook \<open>evaluate\<close> returns \<open>None\<close>, the signal for "no centralized
  evaluation".
\<close>

theorem C10_evaluate_none:
  "evaluate self server_round parameters = None"
  by (simp add: evaluate_def)

end
